theory Spec2Isabelle
  imports
    Complex_Main
    "HOL-Library.Word"
    "HOL-Library.FSet"
    "HOL-Library.Char_ord"
    "HOL-Library.List_Lexorder"
begin

section \<open>Data model\<close>

text \<open>
  The enumerations of \<^verbatim>\<open>student.h\<close> and \<^verbatim>\<open>course_registration.cpp\<close>, with their
  variants in the order of declaration.
\<close>

datatype AcademicStanding = EXCELLENT | GOOD | SATISFACTORY | PROBATION

datatype RegistrationStatus =
  SUCCESS | COURSE_FULL | PREREQ_NOT_MET | TIME_CONFLICT | ALREADY_ENROLLED | REGISTRATION_CLOSED

text \<open>
  The exceptions the code throws: \<^verbatim>\<open>std::invalid_argument\<close>, \<^verbatim>\<open>std::out_of_range\<close> and
  \<^verbatim>\<open>std::runtime_error\<close>. A function that can throw returns \<open>error + 'a\<close> together with
  the state it leaves behind, since a C++ exception does not undo earlier writes.
\<close>

datatype error = InvalidArgument | OutOfRange | RuntimeError

text \<open>
  \<^verbatim>\<open>time_t\<close> values are only compared, never added, so they are integers. The C++ \<^verbatim>\<open>int\<close>
  is a 32-bit two's complement word, read with \<open>sint\<close>.
\<close>

type_synonym time_t = int
type_synonym cpp_int = "32 word"

text \<open>
  Class \<^verbatim>\<open>Student\<close>. The \<^verbatim>\<open>float\<close> field \<^verbatim>\<open>cgpa\<close> is modelled by the real number a finite
  float denotes (NaN and the infinities have no counterpart here).
\<close>

record Student =
  studentId :: string
  name :: string
  department :: string
  cgpa :: real
  semester :: cpp_int
  enrolledCourses :: "string list"

text \<open>
  Struct \<^verbatim>\<open>CourseInfo\<close> and class \<^verbatim>\<open>CourseRegistration\<close>. A \<^verbatim>\<open>std::set<std::string>\<close> is
  a finite set of strings, the \<^verbatim>\<open>std::map\<close> a partial function from course codes.
\<close>

record CourseInfo =
  courseName :: string
  maxCapacity :: cpp_int
  prerequisites :: "string fset"
  enrolledStudents :: "string fset"
  registrationDeadline :: time_t

record CourseRegistration =
  courses :: "string \<rightharpoonup> CourseInfo"

definition empty_registration :: CourseRegistration where
  "empty_registration = \<lparr>courses = Map.empty\<rparr>"

section \<open>Student operations\<close>

text \<open>
  Modelled from the spec: the body of \<^verbatim>\<open>Student::enrollInCourse\<close> (only its declaration is in
  \<^verbatim>\<open>student.h\<close>). It returns false when the course code is already in the list, throws
  \<^verbatim>\<open>std::runtime_error\<close> when the list has reached the maximum course limit, and otherwise
  appends the code and returns true, the checks in the order the spec lists them. The spec
  leaves the limit open, so it is the parameter \<open>maxCourses\<close>.
\<close>

definition enrollInCourse :: "nat \<Rightarrow> Student \<Rightarrow> string \<Rightarrow> (error + bool) \<times> Student" where
  "enrollInCourse maxCourses s courseCode =
     (if courseCode \<in> set (enrolledCourses s) then (Inr False, s)
      else if maxCourses \<le> length (enrolledCourses s) then (Inl RuntimeError, s)
      else (Inr True, s\<lparr>enrolledCourses := enrolledCourses s @ [courseCode]\<rparr>))"

text \<open>
  Modelled from the spec: the body of \<^verbatim>\<open>Student::getAcademicStanding\<close> (declared \<^verbatim>\<open>const\<close> in
  \<^verbatim>\<open>student.h\<close>, defined nowhere under the sources). The thresholds are those of the spec and
  of the comments on the enumeration.
\<close>

definition getAcademicStanding :: "Student \<Rightarrow> AcademicStanding" where
  "getAcademicStanding s =
     (if 9.0 \<le> cgpa s then EXCELLENT
      else if 7.0 \<le> cgpa s then GOOD
      else if 5.0 \<le> cgpa s then SATISFACTORY
      else PROBATION)"

section \<open>CourseRegistration operations\<close>

text \<open>
  \<^verbatim>\<open>enrolledStudents.size() >= maxCapacity\<close> compares a \<^verbatim>\<open>size_t\<close> with an \<^verbatim>\<open>int\<close>: the
  usual arithmetic conversions turn the \<^verbatim>\<open>int\<close> into a 64-bit unsigned value first, so a
  negative capacity would become a huge one.
\<close>

definition size_t_of_int :: "cpp_int \<Rightarrow> nat" where
  "size_t_of_int c = unat (scast c :: 64 word)"

definition size_ge_capacity :: "string fset \<Rightarrow> cpp_int \<Rightarrow> bool" where
  "size_ge_capacity students capacity \<longleftrightarrow> size_t_of_int capacity \<le> fcard students"

text \<open>The conversion of a \<^verbatim>\<open>size_t\<close> to the \<^verbatim>\<open>int\<close> that \<^verbatim>\<open>getEnrollmentCount\<close> returns.\<close>

definition int_of_size_t :: "nat \<Rightarrow> cpp_int" where
  "int_of_size_t n = word_of_nat n"

definition addCourse ::
  "CourseRegistration \<Rightarrow> string \<Rightarrow> string \<Rightarrow> cpp_int \<Rightarrow> string fset \<Rightarrow> time_t
     \<Rightarrow> (error + unit) \<times> CourseRegistration" where
  "addCourse reg courseCode cName capacity prereqs deadline =
     (if courses reg courseCode \<noteq> None then (Inl InvalidArgument, reg)
      else if capacity <s 0 then (Inl OutOfRange, reg)
      else
        let info = \<lparr>courseName = cName, maxCapacity = capacity, prerequisites = prereqs,
                     enrolledStudents = {||}, registrationDeadline = deadline\<rparr>
        in (Inr (), reg\<lparr>courses := (courses reg)(courseCode \<mapsto> info)\<rparr>))"

text \<open>
  \<^verbatim>\<open>std::find\<close> over the vector of enrolled courses: the offset of the first element equal to
  the value, or the length of the vector (the end iterator) when there is none.
\<close>

fun std_find :: "string list \<Rightarrow> string \<Rightarrow> nat" where
  "std_find [] v = 0"
| "std_find (x # xs) v = (if x = v then 0 else Suc (std_find xs v))"

text \<open>
  The loop of \<^verbatim>\<open>validatePrerequisites\<close> over the prerequisites, which a \<^verbatim>\<open>std::set\<close> yields
  in increasing order; it returns false at the first one \<^verbatim>\<open>std::find\<close> does not find.
\<close>

fun prereqs_loop :: "string list \<Rightarrow> string list \<Rightarrow> bool" where
  "prereqs_loop [] completedCourses = True"
| "prereqs_loop (prereq # rest) completedCourses =
     (if std_find completedCourses prereq = length completedCourses then False
      else prereqs_loop rest completedCourses)"

definition validatePrerequisites :: "CourseRegistration \<Rightarrow> Student \<Rightarrow> string \<Rightarrow> bool" where
  "validatePrerequisites reg student courseCode =
     (case courses reg courseCode of
        None \<Rightarrow> False
      | Some course \<Rightarrow>
          prereqs_loop (sorted_list_of_fset (prerequisites course)) (enrolledCourses student))"

text \<open>
  \<^verbatim>\<open>registerStudent\<close>. \<open>now\<close> is the value of \<^verbatim>\<open>time(nullptr)\<close>, \<open>maxCourses\<close> the limit of
  \<open>enrollInCourse\<close>. The result is the status or the exception, the registration and the
  student as the call leaves them. The identifier is inserted before \<^verbatim>\<open>enrollInCourse\<close> is
  called, and the boolean that call returns is dropped.
\<close>

definition registerStudent ::
  "nat \<Rightarrow> time_t \<Rightarrow> CourseRegistration \<Rightarrow> Student \<Rightarrow> string
     \<Rightarrow> (error + RegistrationStatus) \<times> CourseRegistration \<times> Student" where
  "registerStudent maxCourses now reg student courseCode =
     (case courses reg courseCode of
        None \<Rightarrow> (Inl InvalidArgument, reg, student)
      | Some course \<Rightarrow>
          if registrationDeadline course < now then (Inr REGISTRATION_CLOSED, reg, student)
          else if studentId student |\<in>| enrolledStudents course
            then (Inr ALREADY_ENROLLED, reg, student)
          else if size_ge_capacity (enrolledStudents course) (maxCapacity course)
            then (Inr COURSE_FULL, reg, student)
          else if \<not> validatePrerequisites reg student courseCode
            then (Inr PREREQ_NOT_MET, reg, student)
          else
            let course' = course\<lparr>enrolledStudents :=
                                    finsert (studentId student) (enrolledStudents course)\<rparr>;
                reg' = reg\<lparr>courses := (courses reg)(courseCode \<mapsto> course')\<rparr>
            in case enrollInCourse maxCourses student courseCode of
                 (Inl e, student') \<Rightarrow> (Inl e, reg', student')
               | (Inr enrolled, student') \<Rightarrow> (Inr SUCCESS, reg', student'))"

text \<open>
  \<^verbatim>\<open>withdrawStudent\<close>: \<^verbatim>\<open>erase\<close> returns the number of elements removed, 1 or 0. The call
  receives the student identifier by value and no \<^verbatim>\<open>Student\<close> object.
\<close>

definition withdrawStudent ::
  "CourseRegistration \<Rightarrow> string \<Rightarrow> string \<Rightarrow> bool \<times> CourseRegistration" where
  "withdrawStudent reg sid courseCode =
     (case courses reg courseCode of
        None \<Rightarrow> (False, reg)
      | Some course \<Rightarrow>
          let erased = (if sid |\<in>| enrolledStudents course then 1 else 0 :: nat);
              course' = course\<lparr>enrolledStudents := enrolledStudents course |-| {|sid|}\<rparr>
          in (0 < erased, reg\<lparr>courses := (courses reg)(courseCode \<mapsto> course')\<rparr>))"

definition getEnrollmentCount :: "CourseRegistration \<Rightarrow> string \<Rightarrow> error + cpp_int" where
  "getEnrollmentCount reg courseCode =
     (case courses reg courseCode of
        None \<Rightarrow> Inl OutOfRange
      | Some course \<Rightarrow> Inr (int_of_size_t (fcard (enrolledStudents course))))"

definition isCourseFull :: "CourseRegistration \<Rightarrow> string \<Rightarrow> error + bool" where
  "isCourseFull reg courseCode =
     (case courses reg courseCode of
        None \<Rightarrow> Inl OutOfRange
      | Some course \<Rightarrow> Inr (size_ge_capacity (enrolledStudents course) (maxCapacity course)))"

text \<open>
  The registrations a program can hold: \<^verbatim>\<open>courses\<close> is private, so every state comes from the
  empty catalogue by calls of the three mutating operations, whatever they return or throw.
\<close>

inductive reachable :: "CourseRegistration \<Rightarrow> bool" where
  reachable_empty: "reachable empty_registration"
| reachable_addCourse:
    "reachable reg \<Longrightarrow> reachable (snd (addCourse reg courseCode cName capacity prereqs deadline))"
| reachable_registerStudent:
    "reachable reg \<Longrightarrow> reachable (fst (snd (registerStudent maxCourses now reg student courseCode)))"
| reachable_withdrawStudent:
    "reachable reg \<Longrightarrow> reachable (snd (withdrawStudent reg sid courseCode))"

text \<open>
  The class invariant behind the capacity check: every course of the catalogue has a
  capacity that is not negative and at most that many enrolled students.
\<close>

definition course_ok :: "CourseInfo \<Rightarrow> bool" where
  "course_ok c \<longleftrightarrow>
     0 \<le> sint (maxCapacity c) \<and> int (fcard (enrolledStudents c)) \<le> sint (maxCapacity c)"

definition reg_inv :: "CourseRegistration \<Rightarrow> bool" where
  "reg_inv reg \<longleftrightarrow> (\<forall>code c. courses reg code = Some c \<longrightarrow> course_ok c)"

text \<open>
  The caller owns the \<^verbatim>\<open>Student\<close> objects; the registration stores identifiers only. A
  program state is the registration together with the caller's \<^verbatim>\<open>Student\<close> objects, by
  address. \<^verbatim>\<open>withdrawStudent\<close> is given two strings and \<^verbatim>\<open>this\<close>, so a call writes
  the registration and nothing else.
\<close>

record program_state =
  registration :: CourseRegistration
  student_objects :: "nat \<rightharpoonup> Student"

definition withdrawStudent_call ::
  "program_state \<Rightarrow> string \<Rightarrow> string \<Rightarrow> bool \<times> program_state" where
  "withdrawStudent_call st sid courseCode =
     (case withdrawStudent (registration st) sid courseCode of
        (removed, reg') \<Rightarrow> (removed, st\<lparr>registration := reg'\<rparr>))"

section \<open>Example states\<close>

text \<open>
  Three students and the catalogues of a few short runs, used to evaluate the operations. The
  limit of courses per student is 6 in every run.
\<close>

definition alice :: Student where
  "alice = \<lparr>studentId = ''S001'', name = ''Alice'', department = ''CSE'', cgpa = 0,
             semester = 1, enrolledCourses = []\<rparr>"

definition bob :: Student where
  "bob = \<lparr>studentId = ''S002'', name = ''Bob'', department = ''ECE'', cgpa = 0,
           semester = 1, enrolledCourses = []\<rparr>"

definition carol :: Student where
  "carol = \<lparr>studentId = ''S003'', name = ''Carol'', department = ''CSE'', cgpa = 0,
             semester = 1,
             enrolledCourses = [''MA101'', ''PH101'', ''CH101'', ''EE101'', ''ME101'', ''HS101'']\<rparr>"

definition data_structures :: CourseInfo where
  "data_structures = \<lparr>courseName = ''Data Structures'', maxCapacity = 1, prerequisites = {||},
                       enrolledStudents = {||}, registrationDeadline = 1000\<rparr>"

definition algorithms :: CourseInfo where
  "algorithms = \<lparr>courseName = ''Algorithms'', maxCapacity = 60, prerequisites = {|''CS201''|},
                  enrolledStudents = {||}, registrationDeadline = 1000\<rparr>"

text \<open>One course with a single seat, then a second course that requires the first.\<close>

definition one_seat :: CourseRegistration where
  "one_seat = snd (addCourse empty_registration ''CS201'' ''Data Structures'' 1 {||} 1000)"

definition two_courses :: CourseRegistration where
  "two_courses = snd (addCourse one_seat ''CS301'' ''Algorithms'' 60 {|''CS201''|} 1000)"

text \<open>Alice takes the seat at time 500; later she is withdrawn.\<close>

definition seat_taken :: CourseRegistration where
  "seat_taken = fst (snd (registerStudent 6 500 one_seat alice ''CS201''))"

definition alice_enrolled :: Student where
  "alice_enrolled = snd (snd (registerStudent 6 500 one_seat alice ''CS201''))"

definition seat_freed :: CourseRegistration where
  "seat_freed = snd (withdrawStudent seat_taken ''S001'' ''CS201'')"

section \<open>Auxiliary facts\<close>

subsection \<open>The loops and the integer conversions\<close>

lemma std_find_end: "std_find xs v = length xs \<longleftrightarrow> v \<notin> set xs"
proof (induction xs)
  case Nil
  show ?case by simp
next
  case (Cons x xs)
  have "std_find xs v \<le> length xs" for v by (induction xs) auto
  with Cons show ?case by auto
qed

lemma prereqs_loop_iff: "prereqs_loop ps cs \<longleftrightarrow> set ps \<subseteq> set cs"
  by (induction ps) (auto simp: std_find_end)

lemma validatePrerequisites_iff:
  "validatePrerequisites reg s code \<longleftrightarrow>
     (case courses reg code of None \<Rightarrow> False
      | Some c \<Rightarrow> fset (prerequisites c) \<subseteq> set (enrolledCourses s))"
  by (simp add: validatePrerequisites_def prereqs_loop_iff split: option.split)

lemma size_t_of_int_nonneg:
  assumes "0 \<le> sint c"
  shows "size_t_of_int c = nat (sint c)"
proof -
  have lt: "sint c < 2 ^ 31" using sint_lt [of c] by simp
  have "(scast c :: 64 word) = word_of_int (sint c)" by simp
  then have "uint (scast c :: 64 word) = sint c mod 2 ^ 64"
    by (simp only: uint_word_of_int) simp
  also have "\<dots> = sint c" using assms lt by simp
  finally have "uint (scast c :: 64 word) = sint c" .
  then show ?thesis unfolding size_t_of_int_def by (simp only: unat_eq_nat_uint)
qed

lemma size_ge_capacity_nonneg:
  "0 \<le> sint c \<Longrightarrow> size_ge_capacity S c \<longleftrightarrow> sint c \<le> int (fcard S)"
  by (auto simp: size_ge_capacity_def size_t_of_int_nonneg)

text \<open>
  A negative capacity, which \<open>addCourse\<close> rejects, would never count as reached.
\<close>

lemma size_t_of_int_minus_one: "size_t_of_int (- 1) = 2 ^ 64 - 1"
proof -
  have "(scast (- 1 :: 32 word) :: 64 word) = - 1" by simp
  then show ?thesis
    by (simp add: size_t_of_int_def unsigned_minus_1_eq_mask mask_eq_exp_minus_1)
qed

lemma negative_capacity_never_full: "\<not> size_ge_capacity {|''S001''|} (- 1)"
  by (simp add: size_ge_capacity_def size_t_of_int_minus_one fcard_finsert_if fcard_fempty)

lemma sint_int_of_size_t:
  assumes "n < 2 ^ 31"
  shows "sint (int_of_size_t n) = int n"
proof -
  have "sint (word_of_nat n :: 32 word) = signed_take_bit 31 (int n)"
    using signed_of_nat [where 'a = int and 'b = 32, of n] by simp
  also have "\<dots> = int n"
    using assms by (intro signed_take_bit_int_eq_self) simp_all
  finally show ?thesis by (simp add: int_of_size_t_def)
qed

lemma reg_inv_empty: "reg_inv empty_registration"
  by (simp add: reg_inv_def empty_registration_def)

lemma reg_inv_update:
  assumes "reg_inv reg" and "course_ok c"
  shows "reg_inv (reg\<lparr>courses := (courses reg)(code \<mapsto> c)\<rparr>)"
  using assms by (simp add: reg_inv_def)

lemma reg_inv_addCourse:
  assumes "reg_inv reg"
  shows "reg_inv (snd (addCourse reg code nm cap pre dl))"
proof (cases "courses reg code \<noteq> None \<or> cap <s 0")
  case True
  with assms show ?thesis by (auto simp: addCourse_def)
next
  case False
  then have "0 \<le> sint cap" by (simp add: word_sless_alt)
  then have "course_ok \<lparr>courseName = nm, maxCapacity = cap, prerequisites = pre,
                       enrolledStudents = {||}, registrationDeadline = dl\<rparr>"
    by (simp add: course_ok_def fcard_fempty)
  from reg_inv_update [OF assms this] False show ?thesis
    by (simp add: addCourse_def)
qed

lemma reg_inv_withdrawStudent:
  assumes "reg_inv reg"
  shows "reg_inv (snd (withdrawStudent reg sid code))"
proof (cases "courses reg code")
  case None
  with assms show ?thesis by (simp add: withdrawStudent_def)
next
  case (Some c)
  from assms Some have ok: "course_ok c" by (simp add: reg_inv_def)
  have "fcard (enrolledStudents c |-| {|sid|}) \<le> fcard (enrolledStudents c)"
    by (rule fcard_fminus1_le)
  with ok have "course_ok (c\<lparr>enrolledStudents := enrolledStudents c |-| {|sid|}\<rparr>)"
    by (simp add: course_ok_def)
  from reg_inv_update [OF assms this] Some show ?thesis
    by (simp add: withdrawStudent_def)
qed

lemma registerStudent_registration_cases:
  "fst (snd (registerStudent mx now reg s code)) = reg \<or>
   (\<exists>c. courses reg code = Some c \<and> studentId s |\<notin>| enrolledStudents c \<and>
        \<not> size_ge_capacity (enrolledStudents c) (maxCapacity c) \<and>
        fst (snd (registerStudent mx now reg s code)) =
          reg\<lparr>courses := (courses reg)(code \<mapsto>
                 c\<lparr>enrolledStudents := finsert (studentId s) (enrolledStudents c)\<rparr>)\<rparr>)"
  by (auto simp: registerStudent_def Let_def split: option.split prod.split sum.split)

lemma reg_inv_registerStudent:
  assumes "reg_inv reg"
  shows "reg_inv (fst (snd (registerStudent mx now reg s code)))"
proof -
  consider (same) "fst (snd (registerStudent mx now reg s code)) = reg"
    | (ins) c where "courses reg code = Some c" "studentId s |\<notin>| enrolledStudents c"
        "\<not> size_ge_capacity (enrolledStudents c) (maxCapacity c)"
        "fst (snd (registerStudent mx now reg s code)) =
          reg\<lparr>courses := (courses reg)(code \<mapsto>
                 c\<lparr>enrolledStudents := finsert (studentId s) (enrolledStudents c)\<rparr>)\<rparr>"
    using registerStudent_registration_cases [of mx now reg s code] by blast
  then show ?thesis
  proof cases
    case same
    with assms show ?thesis by simp
  next
    case ins
    from assms ins(1) have ok: "course_ok c" by (simp add: reg_inv_def)
    then have nonneg: "0 \<le> sint (maxCapacity c)" by (simp add: course_ok_def)
    with ins(3) have "int (fcard (enrolledStudents c)) < sint (maxCapacity c)"
      by (simp add: size_ge_capacity_nonneg)
    with ins(2) nonneg
    have "course_ok (c\<lparr>enrolledStudents := finsert (studentId s) (enrolledStudents c)\<rparr>)"
      by (simp add: course_ok_def fcard_finsert_if)
    from reg_inv_update [OF assms this] show ?thesis
      unfolding ins(4) .
  qed
qed

lemma reachable_reg_inv: "reachable reg \<Longrightarrow> reg_inv reg"
  by (induction rule: reachable.induct)
     (simp_all add: reg_inv_empty reg_inv_addCourse reg_inv_registerStudent reg_inv_withdrawStudent)

subsection \<open>The example states, evaluated\<close>

lemma one_seat_eq: "one_seat = \<lparr>courses = [''CS201'' \<mapsto> data_structures]\<rparr>"
  by (simp add: one_seat_def addCourse_def empty_registration_def data_structures_def
        word_sless_alt)

lemma two_courses_eq:
  "two_courses = \<lparr>courses = [''CS201'' \<mapsto> data_structures, ''CS301'' \<mapsto> algorithms]\<rparr>"
  by (simp add: two_courses_def one_seat_eq addCourse_def algorithms_def word_sless_alt)

lemma size_ge_capacity_empty_1: "\<not> size_ge_capacity {||} 1"
  by (simp add: size_ge_capacity_def size_t_of_int_def fcard_fempty)

lemma register_alice:
  "registerStudent 6 500 one_seat alice ''CS201'' =
     (Inr SUCCESS,
      \<lparr>courses = [''CS201'' \<mapsto> data_structures\<lparr>enrolledStudents := {|''S001''|}\<rparr>]\<rparr>,
      alice\<lparr>enrolledCourses := [''CS201'']\<rparr>)"
  by (simp add: registerStudent_def one_seat_eq data_structures_def alice_def
        size_ge_capacity_empty_1 validatePrerequisites_iff enrollInCourse_def)

lemma seat_taken_eq:
  "seat_taken = \<lparr>courses = [''CS201'' \<mapsto> data_structures\<lparr>enrolledStudents := {|''S001''|}\<rparr>]\<rparr>"
  by (simp add: seat_taken_def register_alice)

lemma alice_enrolled_eq: "alice_enrolled = alice\<lparr>enrolledCourses := [''CS201'']\<rparr>"
  by (simp add: alice_enrolled_def register_alice)

lemma seat_freed_eq: "seat_freed = one_seat"
  by (simp add: seat_freed_def seat_taken_eq withdrawStudent_def one_seat_eq data_structures_def)

lemma reachable_one_seat: "reachable one_seat"
  unfolding one_seat_def by (intro reachable_addCourse reachable_empty)

lemma reachable_two_courses: "reachable two_courses"
  unfolding two_courses_def by (intro reachable_addCourse reachable_one_seat)

lemma reachable_seat_taken: "reachable seat_taken"
  unfolding seat_taken_def by (intro reachable_registerStudent reachable_one_seat)


subsection \<open>The student side of a registration\<close>


lemma below_capacity:
  assumes "int (fcard S) < sint c"
  shows "\<not> size_ge_capacity S c"
proof -
  from assms have "0 \<le> sint c" by simp
  from size_ge_capacity_nonneg [OF this, of S] assms show ?thesis by simp
qed

lemma getEnrollmentCount_exact:
  assumes "reachable reg" and "courses reg code = Some c"
  shows "\<exists>n. getEnrollmentCount reg code = Inr n \<and> sint n = int (fcard (enrolledStudents c))"
proof -
  from reachable_reg_inv [OF assms(1)] assms(2)
  have "int (fcard (enrolledStudents c)) \<le> sint (maxCapacity c)"
    by (simp add: reg_inv_def course_ok_def)
  moreover have "sint (maxCapacity c) < 2 ^ 31" using sint_lt [of "maxCapacity c"] by simp
  ultimately have "int (fcard (enrolledStudents c)) < 2 ^ 31" by linarith
  then have "fcard (enrolledStudents c) < 2 ^ 31" by simp
  from sint_int_of_size_t [OF this] assms(2) show ?thesis
    by (simp add: getEnrollmentCount_def)
qed

text \<open>
  Carol already has six courses, the limit of the runs. Her registration passes the four checks,
  her identifier is inserted, and then \<open>enrollInCourse\<close> throws.
\<close>

lemma carol_blocked:
  "registerStudent 6 500 one_seat carol ''CS201'' =
     (Inl RuntimeError,
      \<lparr>courses = [''CS201'' \<mapsto> data_structures\<lparr>enrolledStudents := {|''S003''|}\<rparr>]\<rparr>,
      carol)"
  by (simp add: registerStudent_def one_seat_eq data_structures_def carol_def
        size_ge_capacity_empty_1 validatePrerequisites_iff enrollInCourse_def)

text \<open>The same for every limit: a student at the limit who passes the checks.\<close>

lemma registerStudent_at_course_limit:
  assumes "courses reg code = Some c"
    and "\<not> registrationDeadline c < now"
    and "studentId s |\<notin>| enrolledStudents c"
    and "int (fcard (enrolledStudents c)) < sint (maxCapacity c)"
    and "validatePrerequisites reg s code"
    and "code \<notin> set (enrolledCourses s)"
    and "mx \<le> length (enrolledCourses s)"
  shows "registerStudent mx now reg s code =
           (Inl RuntimeError,
            reg\<lparr>courses := (courses reg)(code \<mapsto>
               c\<lparr>enrolledStudents := finsert (studentId s) (enrolledStudents c)\<rparr>)\<rparr>,
            s)"
  using assms(1,2,3,5,6,7) below_capacity [OF assms(4)]
  by (simp add: registerStudent_def enrollInCourse_def)

section \<open>The claims\<close>

subsection \<open>C1: the order of the checks\<close>

text \<open>
  C1 as stated ends the chain of checks with SUCCESS. It fails for Carol: the course exists, the
  deadline has not passed, she is not enrolled, a seat is free and there is no prerequisite, yet
  the call throws RuntimeError and returns no SUCCESS.
\<close>

theorem registerStudent_success_counterexample:
  "courses one_seat ''CS201'' = Some data_structures
   \<and> \<not> registrationDeadline data_structures < 500
   \<and> studentId carol |\<notin>| enrolledStudents data_structures
   \<and> int (fcard (enrolledStudents data_structures)) < sint (maxCapacity data_structures)
   \<and> validatePrerequisites one_seat carol ''CS201''
   \<and> fst (registerStudent 6 500 one_seat carol ''CS201'') = Inl RuntimeError
   \<and> fst (registerStudent 6 500 one_seat carol ''CS201'') \<noteq> Inr SUCCESS"
  by (simp add: carol_blocked)
     (simp add: one_seat_eq data_structures_def carol_def validatePrerequisites_iff fcard_fempty)

text \<open>
  C1, amended. For every reachable catalogue and every student, \<open>registerStudent\<close> throws
  InvalidArgument when the course code is not in the catalogue; otherwise it returns the first
  that applies of REGISTRATION_CLOSED (the time is past the deadline), ALREADY_ENROLLED (the
  student's identifier is in the enrolled set), COURSE_FULL (the enrolled set has at least
  \<open>maxCapacity\<close> members) and PREREQ_NOT_MET (prerequisite validation fails); when none
  applies it returns SUCCESS, unless \<open>enrollInCourse\<close> throws (the course is not in the
  student's list and the list has reached the limit), in which case RuntimeError reaches the
  caller. A student already enrolled in a full, expired course gets REGISTRATION_CLOSED.
\<close>

theorem registerStudent_check_order:
  assumes "reachable reg"
  shows "fst (registerStudent mx now reg s code) =
     (case courses reg code of
        None \<Rightarrow> Inl InvalidArgument
      | Some c \<Rightarrow>
          if registrationDeadline c < now then Inr REGISTRATION_CLOSED
          else if studentId s |\<in>| enrolledStudents c then Inr ALREADY_ENROLLED
          else if sint (maxCapacity c) \<le> int (fcard (enrolledStudents c)) then Inr COURSE_FULL
          else if \<not> validatePrerequisites reg s code then Inr PREREQ_NOT_MET
          else if code \<notin> set (enrolledCourses s) \<and> mx \<le> length (enrolledCourses s)
            then Inl RuntimeError
          else Inr SUCCESS)"
proof (cases "courses reg code")
  case None
  then show ?thesis by (simp add: registerStudent_def)
next
  case (Some c)
  from reachable_reg_inv [OF assms] Some have "0 \<le> sint (maxCapacity c)"
    by (simp add: reg_inv_def course_ok_def)
  then have cap: "size_ge_capacity (enrolledStudents c) (maxCapacity c)
      \<longleftrightarrow> sint (maxCapacity c) \<le> int (fcard (enrolledStudents c))"
    by (rule size_ge_capacity_nonneg)
  show ?thesis
    by (simp add: registerStudent_def Some cap enrollInCourse_def Let_def)
qed

theorem registerStudent_check_order_witness:
  "reachable seat_taken
   \<and> courses seat_taken ''CS201'' = Some (data_structures\<lparr>enrolledStudents := {|''S001''|}\<rparr>)
   \<and> registrationDeadline (data_structures\<lparr>enrolledStudents := {|''S001''|}\<rparr>) < 2000
   \<and> studentId alice_enrolled |\<in>| enrolledStudents (data_structures\<lparr>enrolledStudents := {|''S001''|}\<rparr>)
   \<and> sint (maxCapacity data_structures) \<le> int (fcard {|''S001''|})
   \<and> fst (registerStudent 6 2000 seat_taken alice_enrolled ''CS201'') = Inr REGISTRATION_CLOSED
   \<and> fst (registerStudent 6 500 seat_taken alice_enrolled ''CS201'') = Inr ALREADY_ENROLLED
   \<and> fst (registerStudent 6 500 seat_taken bob ''CS201'') = Inr COURSE_FULL"
  using registerStudent_check_order [OF reachable_seat_taken, of 6 2000 alice_enrolled "''CS201''"]
    registerStudent_check_order [OF reachable_seat_taken, of 6 500 alice_enrolled "''CS201''"]
    registerStudent_check_order [OF reachable_seat_taken, of 6 500 bob "''CS201''"]
    reachable_seat_taken
  by (simp add: seat_taken_eq data_structures_def alice_enrolled_eq alice_def bob_def
        fcard_finsert_if fcard_fempty)


subsection \<open>C2: when a registration writes\<close>




subsection \<open>C3: the capacity invariant\<close>

text \<open>
  C3. Starting from the empty catalogue, after any sequence of \<open>addCourse\<close>,
  \<open>registerStudent\<close> and \<open>withdrawStudent\<close> calls (returning or throwing), every course of
  the catalogue has at most \<open>maxCapacity\<close> enrolled students.
\<close>

theorem capacity_invariant:
  assumes "reachable reg" and "courses reg code = Some c"
  shows "int (fcard (enrolledStudents c)) \<le> sint (maxCapacity c)"
  using reachable_reg_inv [OF assms(1)] assms(2)
  by (simp add: reg_inv_def course_ok_def)

theorem capacity_invariant_witness:
  "reachable seat_taken
   \<and> courses seat_taken ''CS201'' = Some (data_structures\<lparr>enrolledStudents := {|''S001''|}\<rparr>)
   \<and> int (fcard (enrolledStudents (data_structures\<lparr>enrolledStudents := {|''S001''|}\<rparr>)))
       \<le> sint (maxCapacity (data_structures\<lparr>enrolledStudents := {|''S001''|}\<rparr>))"
proof -
  have c: "courses seat_taken ''CS201'' = Some (data_structures\<lparr>enrolledStudents := {|''S001''|}\<rparr>)"
    by (simp add: seat_taken_eq)
  from capacity_invariant [OF reachable_seat_taken c] reachable_seat_taken c
  show ?thesis by simp
qed

subsection \<open>C4: prerequisite validation\<close>

text \<open>
  C4. \<open>validatePrerequisites\<close> is true exactly when the course code is in the catalogue and
  every prerequisite of that course is in the student's list of enrolled courses; for a code
  that is not in the catalogue it is false.
\<close>

theorem validatePrerequisites_spec:
  "(validatePrerequisites reg s code \<longleftrightarrow>
      (\<exists>c. courses reg code = Some c \<and>
           (\<forall>p. p |\<in>| prerequisites c \<longrightarrow> p \<in> set (enrolledCourses s))))
   \<and> (courses reg code = None \<longrightarrow> \<not> validatePrerequisites reg s code)"
  by (auto simp: validatePrerequisites_iff split: option.splits)

theorem validatePrerequisites_spec_witness:
  "courses two_courses ''CS301'' = Some algorithms
   \<and> validatePrerequisites two_courses alice_enrolled ''CS301''
   \<and> \<not> validatePrerequisites two_courses alice ''CS301''
   \<and> courses two_courses ''CS999'' = None
   \<and> \<not> validatePrerequisites two_courses alice_enrolled ''CS999''"
  using validatePrerequisites_spec [of two_courses alice_enrolled "''CS301''"]
    validatePrerequisites_spec [of two_courses alice "''CS301''"]
    validatePrerequisites_spec [of two_courses alice_enrolled "''CS999''"]
  by (simp add: two_courses_eq algorithms_def alice_enrolled_eq alice_def)

subsection \<open>C5: withdrawing a student\<close>

text \<open>
  C5. \<open>withdrawStudent\<close> returns false and changes nothing when the course code is not in
  the catalogue. Otherwise it removes the identifier from the enrolled set of that course and
  returns true exactly when the identifier was there; when it was not, nothing changes, and when
  it was, in a reachable catalogue, \<open>getEnrollmentCount\<close> goes down by exactly 1. In every
  case the \<^verbatim>\<open>Student\<close> objects of the caller are what they were before the call.
\<close>

theorem withdrawStudent_spec:
  "(courses reg code = None \<longrightarrow> withdrawStudent reg sid code = (False, reg))
   \<and> (\<forall>c. courses reg code = Some c \<longrightarrow>
         fst (withdrawStudent reg sid code) = (sid |\<in>| enrolledStudents c)
         \<and> snd (withdrawStudent reg sid code) =
             reg\<lparr>courses := (courses reg)(code \<mapsto>
                c\<lparr>enrolledStudents := enrolledStudents c |-| {|sid|}\<rparr>)\<rparr>
         \<and> (sid |\<notin>| enrolledStudents c \<longrightarrow> snd (withdrawStudent reg sid code) = reg)
         \<and> (sid |\<in>| enrolledStudents c \<and> reachable reg \<longrightarrow>
               (\<exists>before after.
                  getEnrollmentCount reg code = Inr before
                  \<and> getEnrollmentCount (snd (withdrawStudent reg sid code)) code = Inr after
                  \<and> sint after = sint before - 1)))
   \<and> student_objects (snd (withdrawStudent_call st sid code)) = student_objects st
   \<and> fst (withdrawStudent_call st sid code) = fst (withdrawStudent (registration st) sid code)
   \<and> registration (snd (withdrawStudent_call st sid code))
       = snd (withdrawStudent (registration st) sid code)"
proof -
  have unknown: "withdrawStudent reg sid code = (False, reg)" if "courses reg code = None"
    using that by (simp add: withdrawStudent_def)
  have known: "fst (withdrawStudent reg sid code) = (sid |\<in>| enrolledStudents c)
      \<and> snd (withdrawStudent reg sid code) =
             reg\<lparr>courses := (courses reg)(code \<mapsto>
                c\<lparr>enrolledStudents := enrolledStudents c |-| {|sid|}\<rparr>)\<rparr>"
    if "courses reg code = Some c" for c
    using that by (simp add: withdrawStudent_def)
  have absent: "snd (withdrawStudent reg sid code) = reg"
    if c: "courses reg code = Some c" and n: "sid |\<notin>| enrolledStudents c" for c
  proof -
    from n have "enrolledStudents c |-| {|sid|} = enrolledStudents c" by auto
    with c have "(courses reg)(code \<mapsto> c\<lparr>enrolledStudents := enrolledStudents c |-| {|sid|}\<rparr>)
        = courses reg"
      by (simp add: map_upd_triv)
    with known [OF c] show ?thesis by simp
  qed
  have count: "\<exists>before after.
        getEnrollmentCount reg code = Inr before
        \<and> getEnrollmentCount (snd (withdrawStudent reg sid code)) code = Inr after
        \<and> sint after = sint before - 1"
    if c: "courses reg code = Some c" and m: "sid |\<in>| enrolledStudents c" and r: "reachable reg"
    for c
  proof -
    let ?c' = "c\<lparr>enrolledStudents := enrolledStudents c |-| {|sid|}\<rparr>"
    let ?reg' = "snd (withdrawStudent reg sid code)"
    from known [OF c] have c': "courses ?reg' code = Some ?c'" by simp
    have r': "reachable ?reg'" using r by (rule reachable_withdrawStudent)
    from getEnrollmentCount_exact [OF r c] obtain before
      where b: "getEnrollmentCount reg code = Inr before"
        "sint before = int (fcard (enrolledStudents c))" by blast
    from getEnrollmentCount_exact [OF r' c'] obtain after
      where a: "getEnrollmentCount ?reg' code = Inr after"
        "sint after = int (fcard (enrolledStudents c |-| {|sid|}))" by auto
    have "Suc (fcard (enrolledStudents c |-| {|sid|})) = fcard (enrolledStudents c)"
      using m by (rule fcard_Suc_fminus1)
    then have "int (fcard (enrolledStudents c |-| {|sid|})) = int (fcard (enrolledStudents c)) - 1"
      by linarith
    with a(2) b(2) have "sint after = sint before - 1" by (simp only:)
    with a(1) b(1) show ?thesis by blast
  qed
  have frame: "student_objects (snd (withdrawStudent_call st sid code)) = student_objects st
     \<and> fst (withdrawStudent_call st sid code) = fst (withdrawStudent (registration st) sid code)
     \<and> registration (snd (withdrawStudent_call st sid code))
         = snd (withdrawStudent (registration st) sid code)"
    by (simp add: withdrawStudent_call_def split: prod.split)
  from unknown known absent count frame show ?thesis by blast
qed

theorem withdrawStudent_spec_witness:
  "reachable seat_taken
   \<and> courses seat_taken ''CS201'' = Some (data_structures\<lparr>enrolledStudents := {|''S001''|}\<rparr>)
   \<and> ''S001'' |\<in>| enrolledStudents (data_structures\<lparr>enrolledStudents := {|''S001''|}\<rparr>)
   \<and> withdrawStudent seat_taken ''S001'' ''CS201'' = (True, one_seat)
   \<and> getEnrollmentCount seat_taken ''CS201'' = Inr 1
   \<and> getEnrollmentCount (snd (withdrawStudent seat_taken ''S001'' ''CS201'')) ''CS201'' = Inr 0
   \<and> ''S002'' |\<notin>| enrolledStudents (data_structures\<lparr>enrolledStudents := {|''S001''|}\<rparr>)
   \<and> withdrawStudent seat_taken ''S002'' ''CS201'' = (False, seat_taken)
   \<and> courses seat_taken ''CS999'' = None
   \<and> withdrawStudent seat_taken ''S001'' ''CS999'' = (False, seat_taken)
   \<and> student_objects (snd (withdrawStudent_call
         \<lparr>registration = seat_taken, student_objects = [0 \<mapsto> alice_enrolled]\<rparr>
         ''S001'' ''CS201'')) = [0 \<mapsto> alice_enrolled]"
proof -
  let ?c = "data_structures\<lparr>enrolledStudents := {|''S001''|}\<rparr>"
  have c: "courses seat_taken ''CS201'' = Some ?c" by (simp add: seat_taken_eq)
  have m: "''S001'' |\<in>| enrolledStudents ?c" by simp
  have n: "''S002'' |\<notin>| enrolledStudents ?c" by simp
  have u: "courses seat_taken ''CS999'' = None" by (simp add: seat_taken_eq)
  have upd: "seat_taken\<lparr>courses := (courses seat_taken)(''CS201'' \<mapsto>
                ?c\<lparr>enrolledStudents := enrolledStudents ?c |-| {|''S001''|}\<rparr>)\<rparr> = one_seat"
    by (simp add: seat_taken_eq one_seat_eq data_structures_def)
  have counts: "getEnrollmentCount seat_taken ''CS201'' = Inr 1"
    "getEnrollmentCount one_seat ''CS201'' = Inr 0"
    by (simp_all add: getEnrollmentCount_def seat_taken_eq one_seat_eq data_structures_def
          int_of_size_t_def fcard_finsert_if fcard_fempty)
  from withdrawStudent_spec [of seat_taken "''CS201''" "''S001''"] c m
  have "fst (withdrawStudent seat_taken ''S001'' ''CS201'')
      \<and> snd (withdrawStudent seat_taken ''S001'' ''CS201'') =
          seat_taken\<lparr>courses := (courses seat_taken)(''CS201'' \<mapsto>
                ?c\<lparr>enrolledStudents := enrolledStudents ?c |-| {|''S001''|}\<rparr>)\<rparr>"
    by blast
  then have w1: "withdrawStudent seat_taken ''S001'' ''CS201'' = (True, one_seat)"
    unfolding upd by (simp add: prod_eq_iff)
  from withdrawStudent_spec [of seat_taken "''CS201''" "''S002''"] c n
  have "\<not> fst (withdrawStudent seat_taken ''S002'' ''CS201'')
      \<and> snd (withdrawStudent seat_taken ''S002'' ''CS201'') = seat_taken"
    by blast
  then have w2: "withdrawStudent seat_taken ''S002'' ''CS201'' = (False, seat_taken)"
    by (simp add: prod_eq_iff)
  from withdrawStudent_spec [of seat_taken "''CS999''" "''S001''"] u
  have w3: "withdrawStudent seat_taken ''S001'' ''CS999'' = (False, seat_taken)"
    by blast
  from withdrawStudent_spec [of seat_taken "''CS201''" "''S001''"
      "\<lparr>registration = seat_taken, student_objects = [0 \<mapsto> alice_enrolled]\<rparr>"]
  have "student_objects (snd (withdrawStudent_call
         \<lparr>registration = seat_taken, student_objects = [0 \<mapsto> alice_enrolled]\<rparr>
         ''S001'' ''CS201''))
      = student_objects \<lparr>registration = seat_taken, student_objects = [0 \<mapsto> alice_enrolled]\<rparr>"
    by blast
  then have w4: "student_objects (snd (withdrawStudent_call
         \<lparr>registration = seat_taken, student_objects = [0 \<mapsto> alice_enrolled]\<rparr>
         ''S001'' ''CS201'')) = [0 \<mapsto> alice_enrolled]"
    by simp
  from reachable_seat_taken c m n u w1 w2 w3 w4 counts show ?thesis by simp
qed

subsection \<open>C6: academic standing\<close>

text \<open>
  C6. \<open>getAcademicStanding\<close> depends on the CGPA only: EXCELLENT from 9.0, GOOD from 7.0
  and below 9.0, SATISFACTORY from 5.0 and below 7.0, PROBATION below 5.0; the boundaries 9.0,
  7.0 and 5.0 fall in the higher tier. It returns the standing and no new student.
\<close>

theorem getAcademicStanding_spec:
  "(9 \<le> cgpa s \<longrightarrow> getAcademicStanding s = EXCELLENT)
   \<and> (7 \<le> cgpa s \<and> cgpa s < 9 \<longrightarrow> getAcademicStanding s = GOOD)
   \<and> (5 \<le> cgpa s \<and> cgpa s < 7 \<longrightarrow> getAcademicStanding s = SATISFACTORY)
   \<and> (cgpa s < 5 \<longrightarrow> getAcademicStanding s = PROBATION)
   \<and> (cgpa s = cgpa t \<longrightarrow> getAcademicStanding s = getAcademicStanding t)"
  by (simp add: getAcademicStanding_def)

theorem getAcademicStanding_spec_witness:
  "getAcademicStanding (alice\<lparr>cgpa := 9\<rparr>) = EXCELLENT
   \<and> getAcademicStanding (alice\<lparr>cgpa := 7\<rparr>) = GOOD
   \<and> getAcademicStanding (alice\<lparr>cgpa := 5\<rparr>) = SATISFACTORY
   \<and> getAcademicStanding (alice\<lparr>cgpa := 4.9\<rparr>) = PROBATION
   \<and> getAcademicStanding (alice\<lparr>cgpa := 8.9\<rparr>) = GOOD
   \<and> getAcademicStanding (bob\<lparr>cgpa := 9\<rparr>) = getAcademicStanding (alice\<lparr>cgpa := 9\<rparr>)"
proof -
  have "cgpa (bob\<lparr>cgpa := 9\<rparr>) = cgpa (alice\<lparr>cgpa := 9\<rparr>)" by simp
  with getAcademicStanding_spec [of "bob\<lparr>cgpa := 9\<rparr>" "alice\<lparr>cgpa := 9\<rparr>"]
  have pure: "getAcademicStanding (bob\<lparr>cgpa := 9\<rparr>) = getAcademicStanding (alice\<lparr>cgpa := 9\<rparr>)"
    by blast
  have "(9::real) \<le> cgpa (alice\<lparr>cgpa := 9\<rparr>)" by simp
  with getAcademicStanding_spec [of "alice\<lparr>cgpa := 9\<rparr>" alice]
  have e: "getAcademicStanding (alice\<lparr>cgpa := 9\<rparr>) = EXCELLENT" by blast
  have "(7::real) \<le> cgpa (alice\<lparr>cgpa := 7\<rparr>) \<and> cgpa (alice\<lparr>cgpa := 7\<rparr>) < 9" by simp
  with getAcademicStanding_spec [of "alice\<lparr>cgpa := 7\<rparr>" alice]
  have g: "getAcademicStanding (alice\<lparr>cgpa := 7\<rparr>) = GOOD" by blast
  have "(5::real) \<le> cgpa (alice\<lparr>cgpa := 5\<rparr>) \<and> cgpa (alice\<lparr>cgpa := 5\<rparr>) < 7" by simp
  with getAcademicStanding_spec [of "alice\<lparr>cgpa := 5\<rparr>" alice]
  have s: "getAcademicStanding (alice\<lparr>cgpa := 5\<rparr>) = SATISFACTORY" by blast
  have "cgpa (alice\<lparr>cgpa := 4.9\<rparr>) < 5" by simp
  with getAcademicStanding_spec [of "alice\<lparr>cgpa := 4.9\<rparr>" alice]
  have p: "getAcademicStanding (alice\<lparr>cgpa := 4.9\<rparr>) = PROBATION" by blast
  have "(7::real) \<le> cgpa (alice\<lparr>cgpa := 8.9\<rparr>) \<and> cgpa (alice\<lparr>cgpa := 8.9\<rparr>) < 9" by simp
  with getAcademicStanding_spec [of "alice\<lparr>cgpa := 8.9\<rparr>" alice]
  have g': "getAcademicStanding (alice\<lparr>cgpa := 8.9\<rparr>) = GOOD" by blast
  from e g s p g' pure show ?thesis by blast
qed

subsection \<open>C7 and C10: adding a course\<close>

text \<open>
  C7. \<open>addCourse\<close> throws InvalidArgument when the course code is already in the catalogue;
  failing that, it throws OutOfRange when the capacity is negative; otherwise it stores a new
  course under the code, with the given fields and no enrolled student, and leaves every other
  entry of the catalogue as it was. The two throwing calls leave the catalogue unchanged.
\<close>

theorem addCourse_spec:
  "(courses reg code \<noteq> None \<longrightarrow>
      addCourse reg code nm cap pre dl = (Inl InvalidArgument, reg))
   \<and> (courses reg code = None \<and> sint cap < 0 \<longrightarrow>
      addCourse reg code nm cap pre dl = (Inl OutOfRange, reg))
   \<and> (courses reg code = None \<and> 0 \<le> sint cap \<longrightarrow>
      fst (addCourse reg code nm cap pre dl) = Inr ()
      \<and> courses (snd (addCourse reg code nm cap pre dl)) code =
          Some \<lparr>courseName = nm, maxCapacity = cap, prerequisites = pre,
                enrolledStudents = {||}, registrationDeadline = dl\<rparr>
      \<and> (\<forall>other. other \<noteq> code \<longrightarrow>
            courses (snd (addCourse reg code nm cap pre dl)) other = courses reg other))"
  by (auto simp: addCourse_def word_sless_alt)

theorem addCourse_spec_witness:
  "courses one_seat ''CS201'' \<noteq> None
   \<and> addCourse one_seat ''CS201'' ''Data Structures'' 60 {||} 1000 = (Inl InvalidArgument, one_seat)
   \<and> courses one_seat ''CS301'' = None \<and> sint (- 1 :: cpp_int) < 0
   \<and> addCourse one_seat ''CS301'' ''Algorithms'' (- 1) {|''CS201''|} 1000 = (Inl OutOfRange, one_seat)
   \<and> 0 \<le> sint (60 :: cpp_int)
   \<and> courses (snd (addCourse one_seat ''CS301'' ''Algorithms'' 60 {|''CS201''|} 1000)) ''CS301''
       = Some algorithms
   \<and> courses (snd (addCourse one_seat ''CS301'' ''Algorithms'' 60 {|''CS201''|} 1000)) ''CS201''
       = courses one_seat ''CS201''"
  using addCourse_spec [of one_seat "''CS201''" "''Data Structures''" 60 "{||}" 1000]
    addCourse_spec [of one_seat "''CS301''" "''Algorithms''" "- 1" "{|''CS201''|}" 1000]
    addCourse_spec [of one_seat "''CS301''" "''Algorithms''" 60 "{|''CS201''|}" 1000]
  by (simp add: one_seat_eq algorithms_def)

text \<open>
  C10. The duplicate check comes before the capacity check: a call with a course code that is
  already in the catalogue and a negative capacity throws InvalidArgument, not OutOfRange, and
  the catalogue is unchanged.
\<close>

theorem addCourse_duplicate_before_capacity:
  assumes "courses reg code \<noteq> None" and "sint cap < 0"
  shows "addCourse reg code nm cap pre dl = (Inl InvalidArgument, reg)"
  using assms by (simp add: addCourse_def)

theorem addCourse_duplicate_before_capacity_witness:
  "courses one_seat ''CS201'' \<noteq> None \<and> sint (- 1 :: cpp_int) < 0
   \<and> addCourse one_seat ''CS201'' ''Data Structures'' (- 1) {||} 1000
       = (Inl InvalidArgument, one_seat)"
proof -
  have h1: "courses one_seat ''CS201'' \<noteq> None" by (simp add: one_seat_eq)
  have h2: "sint (- 1 :: cpp_int) < 0" by simp
  from addCourse_duplicate_before_capacity [OF h1 h2] h1 h2 show ?thesis by simp
qed

subsection \<open>C8: the unused status\<close>

text \<open>
  C8. \<open>registerStudent\<close> never returns TIME_CONFLICT: whatever the catalogue, the student,
  the course code, the time and the course limit, the call throws or returns one of SUCCESS,
  COURSE_FULL, PREREQ_NOT_MET, ALREADY_ENROLLED and REGISTRATION_CLOSED. No other operation
  returns a registration status.
\<close>

theorem registerStudent_never_TIME_CONFLICT:
  "fst (registerStudent mx now reg s code) \<noteq> Inr TIME_CONFLICT
   \<and> fst (registerStudent mx now reg s code) \<in>
       {Inl InvalidArgument, Inl RuntimeError, Inr SUCCESS, Inr COURSE_FULL, Inr PREREQ_NOT_MET,
        Inr ALREADY_ENROLLED, Inr REGISTRATION_CLOSED}"
  by (simp add: registerStudent_def enrollInCourse_def Let_def split: option.split)

theorem registerStudent_never_TIME_CONFLICT_witness:
  "fst (registerStudent 6 500 one_seat alice ''CS201'') = Inr SUCCESS
   \<and> fst (registerStudent 6 500 one_seat alice ''CS201'') \<noteq> Inr TIME_CONFLICT"
  using registerStudent_never_TIME_CONFLICT [of 6 500 one_seat alice "''CS201''"]
  by (simp add: register_alice)

subsection \<open>C9: the result of the student-side enrolment\<close>

text \<open>
  C9 as stated has \<open>registerStudent\<close> return SUCCESS whenever the deadline, already-enrolled,
  capacity and prerequisite checks pass. For Carol the four checks pass, her identifier is
  inserted, and then \<open>enrollInCourse\<close> throws: the call ends in RuntimeError, not SUCCESS.
\<close>

theorem registerStudent_discards_enrollInCourse_result_counterexample:
  "courses one_seat ''CS201'' = Some data_structures
   \<and> \<not> registrationDeadline data_structures < 500
   \<and> studentId carol |\<notin>| enrolledStudents data_structures
   \<and> int (fcard (enrolledStudents data_structures)) < sint (maxCapacity data_structures)
   \<and> validatePrerequisites one_seat carol ''CS201''
   \<and> enrollInCourse 6 carol ''CS201'' = (Inl RuntimeError, carol)
   \<and> studentId carol |\<in>| enrolledStudents (data_structures\<lparr>enrolledStudents := {|''S003''|}\<rparr>)
   \<and> registerStudent 6 500 one_seat carol ''CS201'' =
        (Inl RuntimeError,
         \<lparr>courses = [''CS201'' \<mapsto> data_structures\<lparr>enrolledStudents := {|''S003''|}\<rparr>]\<rparr>,
         carol)
   \<and> fst (registerStudent 6 500 one_seat carol ''CS201'') \<noteq> Inr SUCCESS"
proof -
  have e: "enrollInCourse 6 carol ''CS201'' = (Inl RuntimeError, carol)"
    by (simp add: enrollInCourse_def carol_def)
  have v: "validatePrerequisites one_seat carol ''CS201''"
    by (simp add: validatePrerequisites_iff one_seat_eq data_structures_def)
  have k: "courses one_seat ''CS201'' = Some data_structures"
    by (simp add: one_seat_eq)
  have d: "\<not> registrationDeadline data_structures < 500"
    by (simp add: data_structures_def)
  have n: "studentId carol |\<notin>| enrolledStudents data_structures"
    by (simp add: data_structures_def)
  have f: "int (fcard (enrolledStudents data_structures)) < sint (maxCapacity data_structures)"
    by (simp add: data_structures_def fcard_fempty)
  have i: "studentId carol |\<in>| enrolledStudents (data_structures\<lparr>enrolledStudents := {|''S003''|}\<rparr>)"
    by (simp add: carol_def)
  have r: "fst (registerStudent 6 500 one_seat carol ''CS201'') \<noteq> Inr SUCCESS"
    by (simp add: carol_blocked)
  from e v k d n f i r carol_blocked show ?thesis by blast
qed

text \<open>
  C9, amended. When the course exists and the deadline, already-enrolled, capacity and
  prerequisite checks pass, \<open>registerStudent\<close> inserts the student's identifier into the
  enrolled set of the course in every case, and it returns SUCCESS exactly when
  \<open>enrollInCourse\<close> returns, whatever boolean that is: the boolean is dropped. In particular,
  when the course code is already in the student's list (as after a withdrawal),
  \<open>enrollInCourse\<close> returns false and leaves the student unchanged, and the registration
  still succeeds. Only when \<open>enrollInCourse\<close> throws (the course is not in the student's
  list and the list has reached the limit) does RuntimeError reach the caller instead.
\<close>

theorem registerStudent_discards_enrollInCourse_result:
  assumes "courses reg code = Some c"
    and "\<not> registrationDeadline c < now"
    and "studentId s |\<notin>| enrolledStudents c"
    and "int (fcard (enrolledStudents c)) < sint (maxCapacity c)"
    and "validatePrerequisites reg s code"
  shows "(\<forall>enrolled s'. enrollInCourse mx s code = (Inr enrolled, s') \<longrightarrow>
            registerStudent mx now reg s code =
              (Inr SUCCESS,
               reg\<lparr>courses := (courses reg)(code \<mapsto>
                  c\<lparr>enrolledStudents := finsert (studentId s) (enrolledStudents c)\<rparr>)\<rparr>,
               s'))
    \<and> (code \<in> set (enrolledCourses s) \<longrightarrow>
          enrollInCourse mx s code = (Inr False, s)
          \<and> registerStudent mx now reg s code =
              (Inr SUCCESS,
               reg\<lparr>courses := (courses reg)(code \<mapsto>
                  c\<lparr>enrolledStudents := finsert (studentId s) (enrolledStudents c)\<rparr>)\<rparr>,
               s))
    \<and> fst (snd (registerStudent mx now reg s code)) =
          reg\<lparr>courses := (courses reg)(code \<mapsto>
             c\<lparr>enrolledStudents := finsert (studentId s) (enrolledStudents c)\<rparr>)\<rparr>
    \<and> snd (snd (registerStudent mx now reg s code)) = snd (enrollInCourse mx s code)
    \<and> fst (registerStudent mx now reg s code) =
          (if code \<notin> set (enrolledCourses s) \<and> mx \<le> length (enrolledCourses s)
           then Inl RuntimeError else Inr SUCCESS)
    \<and> (fst (registerStudent mx now reg s code) = Inr SUCCESS
          \<longleftrightarrow> (\<exists>enrolled s'. enrollInCourse mx s code = (Inr enrolled, s')))"
proof -
  note nf = below_capacity [OF assms(4)]
  let ?reg' = "reg\<lparr>courses := (courses reg)(code \<mapsto>
                  c\<lparr>enrolledStudents := finsert (studentId s) (enrolledStudents c)\<rparr>)\<rparr>"
  have gen: "registerStudent mx now reg s code = (Inr SUCCESS, ?reg', s')"
    if "enrollInCourse mx s code = (Inr enrolled, s')" for enrolled s'
    using assms(1,2,3,5) nf that by (simp add: registerStudent_def)
  have dup: "enrollInCourse mx s code = (Inr False, s)" if "code \<in> set (enrolledCourses s)"
    using that by (simp add: enrollInCourse_def)
  have written: "fst (snd (registerStudent mx now reg s code)) = ?reg'"
    using assms(1,2,3,5) nf
    by (simp add: registerStudent_def Let_def split: prod.split sum.split)
  have student: "snd (snd (registerStudent mx now reg s code)) = snd (enrollInCourse mx s code)"
    using assms(1,2,3,5) nf
    by (simp add: registerStudent_def Let_def split: prod.split sum.split)
  have outcome: "fst (registerStudent mx now reg s code) =
          (if code \<notin> set (enrolledCourses s) \<and> mx \<le> length (enrolledCourses s)
           then Inl RuntimeError else Inr SUCCESS)"
    using assms(1,2,3,5) nf by (simp add: registerStudent_def enrollInCourse_def)
  have returns: "fst (registerStudent mx now reg s code) = Inr SUCCESS
          \<longleftrightarrow> (\<exists>enrolled s'. enrollInCourse mx s code = (Inr enrolled, s'))"
    unfolding outcome by (auto simp: enrollInCourse_def)
  from gen dup written student outcome returns show ?thesis by blast
qed

theorem registerStudent_discards_enrollInCourse_result_witness:
  "courses seat_freed ''CS201'' = Some data_structures
   \<and> \<not> registrationDeadline data_structures < 600
   \<and> studentId alice_enrolled |\<notin>| enrolledStudents data_structures
   \<and> int (fcard (enrolledStudents data_structures)) < sint (maxCapacity data_structures)
   \<and> validatePrerequisites seat_freed alice_enrolled ''CS201''
   \<and> ''CS201'' \<in> set (enrolledCourses alice_enrolled)
   \<and> enrollInCourse 6 alice_enrolled ''CS201'' = (Inr False, alice_enrolled)
   \<and> registerStudent 6 600 seat_freed alice_enrolled ''CS201''
       = (Inr SUCCESS, seat_taken, alice_enrolled)"
proof -
  have h1: "courses seat_freed ''CS201'' = Some data_structures"
    by (simp add: seat_freed_eq one_seat_eq)
  have h2: "\<not> registrationDeadline data_structures < 600"
    by (simp add: data_structures_def)
  have h3: "studentId alice_enrolled |\<notin>| enrolledStudents data_structures"
    by (simp add: data_structures_def)
  have h4: "int (fcard (enrolledStudents data_structures)) < sint (maxCapacity data_structures)"
    by (simp add: data_structures_def fcard_fempty)
  have h5: "validatePrerequisites seat_freed alice_enrolled ''CS201''"
    by (simp add: validatePrerequisites_iff h1) (simp add: data_structures_def)
  have h6: "''CS201'' \<in> set (enrolledCourses alice_enrolled)"
    by (simp add: alice_enrolled_eq)
  from registerStudent_discards_enrollInCourse_result [OF h1 h2 h3 h4 h5, of 6] h6
  have "enrollInCourse 6 alice_enrolled ''CS201'' = (Inr False, alice_enrolled)
    \<and> registerStudent 6 600 seat_freed alice_enrolled ''CS201'' =
        (Inr SUCCESS,
         seat_freed\<lparr>courses := (courses seat_freed)(''CS201'' \<mapsto>
            data_structures\<lparr>enrolledStudents :=
               finsert (studentId alice_enrolled) (enrolledStudents data_structures)\<rparr>)\<rparr>,
         alice_enrolled)"
    by blast
  moreover have "seat_freed\<lparr>courses := (courses seat_freed)(''CS201'' \<mapsto>
            data_structures\<lparr>enrolledStudents :=
               finsert (studentId alice_enrolled) (enrolledStudents data_structures)\<rparr>)\<rparr>
       = seat_taken"
    by (simp add: seat_freed_eq one_seat_eq seat_taken_eq alice_enrolled_eq alice_def
          data_structures_def)
  ultimately show ?thesis using h1 h2 h3 h4 h5 h6 by simp
qed


end
